theory Spec2Isabelle
  imports
    Complex_Main
    "HOL-Library.Multiset"
    "HOL-Library.Sublist"
    "HOL-Library.Product_Lexorder"
begin

section \<open>Python values and exceptions\<close>


text \<open>
  The exceptions that can leave the modelled functions.  \<open>StorageError\<close> stands for any
  exception of a \<^verbatim>\<open>sqlite3\<close> call, \<open>RemoteCallError\<close> for any exception of the remote
  completion call; \<open>AttributeError\<close> is what \<^verbatim>\<open>x.get(...)\<close> raises when \<open>x\<close> is not a
  dictionary, \<open>TypeError\<close> what \<^verbatim>\<open><\<close> raises between values that are not ordered.
\<close>

datatype error = StorageError | RemoteCallError | AttributeError | TypeError





section \<open>Context Store (memory.py)\<close>

text \<open>
  The four tables of \<^verbatim>\<open>_init_database\<close>.  A table is the list of its rows in rowid
  order, which is the order a scan without an index visits them; no statement of the
  program deletes a row, so the rowid of a row is its position and the \<^verbatim>\<open>id\<close> columns
  are left out.  A column that a statement can leave \<^verbatim>\<open>NULL\<close> is an option.

  Timestamps are stored as text and compared as text; a timestamp is modelled as a natural
  number (a tick count) with the same order.  The clock is an input: \<^verbatim>\<open>datetime.now()\<close>
  and SQLite's \<^verbatim>\<open>CURRENT_TIMESTAMP\<close> are read by the statements, and each store function
  takes the readings its call makes.
\<close>

type_synonym timestamp = nat

record client_row =
  c_client_id :: string
  c_name :: "string option"
  c_language :: "string option"
  c_created_at :: timestamp
  c_last_contact :: timestamp
  c_lead_score :: "string option"
  c_notes :: "string option"

record detail_row =
  d_client_id :: string
  d_key :: string
  d_value :: string
  d_created_at :: timestamp

record conversation_row =
  m_client_id :: string
  m_role :: string
  m_content :: string
  m_timestamp :: timestamp
  m_platform :: string

record order_row =
  o_client_id :: string
  o_product :: string
  o_amount :: real
  o_status :: string
  o_created_at :: timestamp

record database =
  clients :: "client_row list"
  client_details :: "detail_row list"
  conversations :: "conversation_row list"
  orders :: "order_row list"

text \<open>
  The clock readings of one store call: the two \<^verbatim>\<open>datetime.now()\<close> arguments that
  \<^verbatim>\<open>save_client\<close> binds (the fourth and the seventh parameter of its statement), the
  \<^verbatim>\<open>CURRENT_TIMESTAMP\<close> default of \<^verbatim>\<open>clients.created_at\<close>, and for a function that runs
  a statement of its own after \<^verbatim>\<open>save_client\<close>, that statement's \<^verbatim>\<open>datetime.now()\<close>
  argument and \<^verbatim>\<open>CURRENT_TIMESTAMP\<close> default.
\<close>

record clock =
  now_insert :: timestamp
  now_update :: timestamp
  default_client :: timestamp
  now_stmt :: timestamp
  default_stmt :: timestamp

text \<open>
  \<^verbatim>\<open>ORDER BY col DESC\<close> without an index: SQLite sorts the scanned rows by the column and
  keeps rows with equal values in scan order.  \<open>sort_key\<close> is a stable ascending sort, so
  sorting the reversed scan and reversing the result gives exactly that.
\<close>

definition order_by_desc :: "('a \<Rightarrow> timestamp) \<Rightarrow> 'a list \<Rightarrow> 'a list" where
  "order_by_desc col rows = rev (sort_key col (rev rows))"

text \<open>\<^verbatim>\<open>LIMIT n\<close>: a negative \<open>n\<close> is no limit.\<close>

definition sql_limit :: "int \<Rightarrow> 'a list \<Rightarrow> 'a list" where
  "sql_limit n rows = (if n < 0 then rows else take (nat n) rows)"

text \<open>\<^verbatim>\<open>COALESCE(?, col)\<close>.\<close>

definition coalesce :: "'a option \<Rightarrow> 'a option \<Rightarrow> 'a option" where
  "coalesce arg col = (case arg of Some v \<Rightarrow> Some v | None \<Rightarrow> col)"

text \<open>
  \<^verbatim>\<open>save_client\<close> (lines 75 to 101): \<^verbatim>\<open>INSERT ... ON CONFLICT(client_id) DO UPDATE\<close>.
\<close>

definition save_client ::
  "clock \<Rightarrow> string \<Rightarrow> string option \<Rightarrow> string option \<Rightarrow> database \<Rightarrow> database"
where
  "save_client ck client_id name language db =
     (if list_ex (\<lambda>r. c_client_id r = client_id) (clients db)
      then db\<lparr>clients :=
             map (\<lambda>r. if c_client_id r = client_id
                       then r\<lparr>c_name := coalesce name (c_name r),
                              c_language := coalesce language (c_language r),
                              c_last_contact := now_update ck\<rparr>
                       else r)
                 (clients db)\<rparr>
      else db\<lparr>clients := clients db @
             [\<lparr>c_client_id = client_id, c_name = name, c_language = language,
               c_created_at = default_client ck, c_last_contact = now_insert ck,
               c_lead_score = None, c_notes = None\<rparr>]\<rparr>)"

text \<open>\<^verbatim>\<open>get_client\<close> (lines 103 to 122): the row, or \<^verbatim>\<open>None\<close>.\<close>

definition get_client :: "string \<Rightarrow> database \<Rightarrow> client_row option" where
  "get_client client_id db = find (\<lambda>r. c_client_id r = client_id) (clients db)"

text \<open>
  \<^verbatim>\<open>save_detail\<close> (lines 124 to 158): when a row for the client and key exists, the
  \<^verbatim>\<open>UPDATE\<close> rewrites the value and \<^verbatim>\<open>created_at\<close> of every such row; otherwise one row
  is inserted.
\<close>

definition save_detail :: "clock \<Rightarrow> string \<Rightarrow> string \<Rightarrow> string \<Rightarrow> database \<Rightarrow> database" where
  "save_detail ck client_id key val db =
     (let db1 = save_client ck client_id None None db in
      if list_ex (\<lambda>r. d_client_id r = client_id \<and> d_key r = key) (client_details db1)
      then db1\<lparr>client_details :=
             map (\<lambda>r. if d_client_id r = client_id \<and> d_key r = key
                       then r\<lparr>d_value := val, d_created_at := now_stmt ck\<rparr>
                       else r)
                 (client_details db1)\<rparr>
      else db1\<lparr>client_details := client_details db1 @
             [\<lparr>d_client_id = client_id, d_key = key, d_value = val,
               d_created_at = default_stmt ck\<rparr>]\<rparr>)"

text \<open>\<^verbatim>\<open>get_detail\<close> (lines 160 to 177).\<close>

definition get_detail :: "string \<Rightarrow> string \<Rightarrow> database \<Rightarrow> string option" where
  "get_detail client_id key db =
     (case sql_limit 1 (order_by_desc d_created_at
             (filter (\<lambda>r. d_client_id r = client_id \<and> d_key r = key) (client_details db))) of
        [] \<Rightarrow> None
      | r # _ \<Rightarrow> Some (d_value r))"

text \<open>
  \<^verbatim>\<open>get_all_details\<close> (lines 179 to 195).  The dictionary comprehension keeps one item per
  key, at the place of the key's first row and with the value of its last row.
\<close>

fun dict_store :: "('k \<times> 'v) list \<Rightarrow> 'k \<Rightarrow> 'v \<Rightarrow> ('k \<times> 'v) list" where
  "dict_store [] k v = [(k, v)]"
| "dict_store ((k', v') # kvs) k v =
     (if k' = k then (k, v) # kvs else (k', v') # dict_store kvs k v)"

definition get_all_details :: "string \<Rightarrow> database \<Rightarrow> (string \<times> string) list" where
  "get_all_details client_id db =
     foldl (\<lambda>acc r. dict_store acc (d_key r) (d_value r)) []
       (filter (\<lambda>r. d_client_id r = client_id) (client_details db))"


text \<open>
  An entry of a conversation history: the dictionary with the keys \<^verbatim>\<open>role\<close>, \<^verbatim>\<open>content\<close>
  and \<^verbatim>\<open>timestamp\<close> that \<^verbatim>\<open>get_history\<close> builds.  The orchestrator also builds an entry
  without the key \<^verbatim>\<open>timestamp\<close>; there the field is \<open>None\<close>.
\<close>

record turn =
  t_role :: string
  t_content :: string
  t_timestamp :: "timestamp option"

definition turn_of_row :: "conversation_row \<Rightarrow> turn" where
  "turn_of_row r = \<lparr>t_role = m_role r, t_content = m_content r, t_timestamp = Some (m_timestamp r)\<rparr>"

text \<open>\<^verbatim>\<open>get_history\<close> (lines 215 to 236): the query, then \<^verbatim>\<open>reversed(rows)\<close>.\<close>

definition get_history :: "string \<Rightarrow> int \<Rightarrow> database \<Rightarrow> turn list" where
  "get_history client_id limit db =
     map turn_of_row
       (rev (sql_limit limit (order_by_desc m_timestamp
          (filter (\<lambda>r. m_client_id r = client_id) (conversations db)))))"

text \<open>\<^verbatim>\<open>save_order\<close> (lines 282 to 298) and \<^verbatim>\<open>get_orders\<close> (lines 300 to 325).\<close>

definition save_order ::
  "clock \<Rightarrow> string \<Rightarrow> string \<Rightarrow> real \<Rightarrow> string \<Rightarrow> database \<Rightarrow> database"
where
  "save_order ck client_id product amount status db =
     (let db1 = save_client ck client_id None None db in
      db1\<lparr>orders := orders db1 @
        [\<lparr>o_client_id = client_id, o_product = product, o_amount = amount,
          o_status = status, o_created_at = default_stmt ck\<rparr>]\<rparr>)"

record order_info =
  p_product :: string
  p_amount :: real
  p_status :: string
  p_created_at :: timestamp

definition order_of_row :: "order_row \<Rightarrow> order_info" where
  "order_of_row r = \<lparr>p_product = o_product r, p_amount = o_amount r, p_status = o_status r,
     p_created_at = o_created_at r\<rparr>"

definition get_orders :: "string \<Rightarrow> database \<Rightarrow> order_info list" where
  "get_orders client_id db =
     map order_of_row
       (order_by_desc o_created_at (filter (\<lambda>r. o_client_id r = client_id) (orders db)))"

text \<open>\<^verbatim>\<open>update_lead_score\<close> (lines 327 to 340).\<close>

definition update_lead_score :: "string \<Rightarrow> string option \<Rightarrow> database \<Rightarrow> database" where
  "update_lead_score client_id score db =
     db\<lparr>clients :=
       map (\<lambda>r. if c_client_id r = client_id then r\<lparr>c_lead_score := score\<rparr> else r)
         (clients db)\<rparr>"

text \<open>
  \<^verbatim>\<open>str(n)\<close> for a length \<open>n\<close>, and \<^verbatim>\<open>sep.join(parts)\<close>.
\<close>

fun str_of_nat :: "nat \<Rightarrow> string" where
  "str_of_nat n =
     (if n < 10 then [''0123456789'' ! n]
      else str_of_nat (n div 10) @ [''0123456789'' ! (n mod 10)])"

declare str_of_nat.simps [simp del]

fun join :: "string \<Rightarrow> string list \<Rightarrow> string" where
  "join sep [] = []"
| "join sep [p] = p"
| "join sep (p # q # ps) = p @ sep @ join sep (q # ps)"

text \<open>
  \<^verbatim>\<open>_generate_context_summary\<close> (lines 255 to 280).  \<^verbatim>\<open>parts\<close> grows by
  \<^verbatim>\<open>parts.append\<close>; \<^verbatim>\<open>if client.get("name")\<close> holds for a name that is neither
  \<^verbatim>\<open>None\<close> nor empty.
\<close>

definition generate_context_summary ::
  "client_row option \<Rightarrow> (string \<times> string) list \<Rightarrow> turn list \<Rightarrow> order_info list \<Rightarrow> string"
where
  "generate_context_summary client details history ords =
     (let parts = [];
          parts = (case client of
                     None \<Rightarrow> parts
                   | Some c \<Rightarrow>
                       let parts = (case c_name c of
                                      Some n \<Rightarrow> if n \<noteq> [] then parts @ [''Client: '' @ n] else parts
                                    | None \<Rightarrow> parts);
                           parts = (case c_language c of
                                      Some l \<Rightarrow> if l \<noteq> [] then parts @ [''Language: '' @ l] else parts
                                    | None \<Rightarrow> parts);
                           parts = (case c_lead_score c of
                                      Some s \<Rightarrow> if s \<noteq> [] then parts @ [''Lead score: '' @ s] else parts
                                    | None \<Rightarrow> parts)
                       in parts);
          parts = (if details \<noteq> []
                   then parts @ map (\<lambda>(key, val). key @ '': '' @ val) details
                   else parts);
          parts = (case ords of
                     [] \<Rightarrow> parts
                   | last_order # _ \<Rightarrow>
                       parts @ [''Orders: '' @ str_of_nat (length ords) @ '' total'',
                                ''Last order: '' @ p_product last_order @
                                  '' ('' @ p_status last_order @ '')'']);
          parts = (if history \<noteq> []
                   then parts @ [''Conversation history: '' @ str_of_nat (length history) @ '' messages'']
                   else parts)
      in if parts \<noteq> [] then join '' | '' parts else ''New client, no history'')"

text \<open>\<^verbatim>\<open>get_context\<close> (lines 238 to 253): the Context Snapshot.\<close>

record snapshot =
  ctx_client :: "client_row option"
  ctx_details :: "(string \<times> string) list"
  ctx_recent_history :: "turn list"
  ctx_orders :: "order_info list"
  ctx_summary :: string

definition get_context :: "string \<Rightarrow> database \<Rightarrow> snapshot" where
  "get_context client_id db =
     (let client = get_client client_id db;
          details = get_all_details client_id db;
          history = get_history client_id 10 db;
          ords = get_orders client_id db
      in \<lparr>ctx_client = client, ctx_details = details, ctx_recent_history = history,
          ctx_orders = ords,
          ctx_summary = generate_context_summary client details history ords\<rparr>)"

text \<open>
  The specification's reading of the summary: the fields that are present, in the order
  name, language, lead score, each detail, order count with the last order, history
  message count.
\<close>

definition spec_text_field :: "string \<Rightarrow> string option \<Rightarrow> string list" where
  "spec_text_field label v = (case v of None \<Rightarrow> [] | Some s \<Rightarrow> if s = [] then [] else [label @ s])"

definition spec_summary_fields ::
  "client_row option \<Rightarrow> (string \<times> string) list \<Rightarrow> turn list \<Rightarrow> order_info list \<Rightarrow> string list"
where
  "spec_summary_fields client details history ords =
     concat
       [case client of None \<Rightarrow> [] | Some c \<Rightarrow> spec_text_field ''Client: '' (c_name c),
        case client of None \<Rightarrow> [] | Some c \<Rightarrow> spec_text_field ''Language: '' (c_language c),
        case client of None \<Rightarrow> [] | Some c \<Rightarrow> spec_text_field ''Lead score: '' (c_lead_score c),
        map (\<lambda>(key, val). key @ '': '' @ val) details,
        if ords = [] then []
        else [''Orders: '' @ str_of_nat (length ords) @ '' total'',
              ''Last order: '' @ p_product (hd ords) @ '' ('' @ p_status (hd ords) @ '')''],
        if history = [] then []
        else [''Conversation history: '' @ str_of_nat (length history) @ '' messages'']]"


text \<open>A run of \<^verbatim>\<open>save_detail\<close> calls, each with its clock readings.\<close>

fun save_details :: "(clock \<times> string \<times> string \<times> string) list \<Rightarrow> database \<Rightarrow> database" where
  "save_details [] db = db"
| "save_details ((ck, client_id, key, val) # calls) db =
     save_details calls (save_detail ck client_id key val db)"

text \<open>The empty store, as \<^verbatim>\<open>_init_database\<close> leaves a new file.\<close>

definition empty_database :: database where
  "empty_database = \<lparr>clients = [], client_details = [], conversations = [], orders = []\<rparr>"

text \<open>A call all of whose clock readings are the same tick.\<close>

definition tick :: "timestamp \<Rightarrow> clock" where
  "tick t = \<lparr>now_insert = t, now_update = t, default_client = t, now_stmt = t, default_stmt = t\<rparr>"

section \<open>Orchestrator: the recommended action\<close>


text \<open>
  The specification's reading of the same decision: seven rules in a fixed order, each with
  a condition and an action text; the first rule whose condition holds fires.
\<close>

datatype rule =
  Urgent | StrongSignal | HotLead | Complaint | WarmLead | SalesOpportunity | StandardInquiry



fun spec_action :: "rule \<Rightarrow> string" where
  "spec_action Urgent = ''URGENT: Respond immediately - customer needs attention''"
| "spec_action StrongSignal = ''HOT LEAD: Strong buying signal detected - prioritize closing''"
| "spec_action HotLead = ''Ready to buy - present offer and close''"
| "spec_action Complaint = ''Address complaint promptly - risk of losing customer''"
| "spec_action WarmLead = ''Nurture lead - provide value and build relationship''"
| "spec_action SalesOpportunity = ''Sales opportunity - qualify further and present value''"
| "spec_action StandardInquiry = ''Respond helpfully - standard inquiry''"

section \<open>Properties of the recommended action\<close>

lemma spec_action_inj: "inj spec_action"
proof (rule injI)
  fix a b :: rule
  assume "spec_action a = spec_action b"
  then show "a = b" by (cases a; cases b) simp_all
qed



section \<open>Properties of the Context Store\<close>

subsection \<open>Details\<close>

lemma client_details_save_client: "client_details (save_client ck c n l db) = client_details db"
  by (simp add: save_client_def)

lemma set_order_by_desc: "set (order_by_desc f xs) = set xs"
  by (simp add: order_by_desc_def)

lemma order_by_desc_Nil_iff: "order_by_desc f xs = [] \<longleftrightarrow> xs = []"
  by (metis set_order_by_desc set_empty)

lemma get_detail_uniform:
  assumes ex: "\<exists>r \<in> set (client_details db). d_client_id r = c \<and> d_key r = k"
    and all: "\<forall>r \<in> set (client_details db). d_client_id r = c \<and> d_key r = k \<longrightarrow> d_value r = v"
  shows "get_detail c k db = Some v"
proof -
  let ?rows = "filter (\<lambda>r. d_client_id r = c \<and> d_key r = k) (client_details db)"
  let ?sorted = "order_by_desc d_created_at ?rows"
  from ex have "?rows \<noteq> []" by (auto simp: filter_empty_conv)
  then have "?sorted \<noteq> []" by (simp add: order_by_desc_Nil_iff)
  then obtain r rs where s: "?sorted = r # rs" by (cases ?sorted) auto
  then have "r \<in> set ?sorted" by simp
  then have "r \<in> set ?rows" by (simp only: set_order_by_desc)
  with all have "d_value r = v" by auto
  with s show ?thesis by (simp add: get_detail_def sql_limit_def)
qed

lemma filter_map_update_other:
  assumes "\<And>r. Q r \<Longrightarrow> \<not> P r" and "\<And>r. Q r \<Longrightarrow> \<not> P (u r)"
  shows "filter P (map (\<lambda>r. if Q r then u r else r) xs) = filter P xs"
  by (induction xs) (auto simp: assms)

lemma map_update_all:
  assumes "\<And>x. P x \<Longrightarrow> G (u x)"
  shows "\<forall>r \<in> set (map (\<lambda>x. if P x then u x else x) xs). P r \<longrightarrow> G r"
  by (induction xs) (simp_all add: assms)

lemma client_details_save_detail:
  "client_details (save_detail ck c k v db) =
     (if list_ex (\<lambda>r. d_client_id r = c \<and> d_key r = k) (client_details db)
      then map (\<lambda>r. if d_client_id r = c \<and> d_key r = k
                 then r\<lparr>d_value := v, d_created_at := now_stmt ck\<rparr> else r) (client_details db)
      else client_details db @
        [\<lparr>d_client_id = c, d_key = k, d_value = v, d_created_at = default_stmt ck\<rparr>])"
  by (simp add: save_detail_def Let_def client_details_save_client)

lemma save_detail_rows:
  "\<forall>r \<in> set (client_details (save_detail ck c k v db)).
      d_client_id r = c \<and> d_key r = k \<longrightarrow> d_value r = v"
proof (cases "list_ex (\<lambda>r. d_client_id r = c \<and> d_key r = k) (client_details db)")
  case True
  then have cd: "client_details (save_detail ck c k v db) =
      map (\<lambda>r. if d_client_id r = c \<and> d_key r = k
                 then r\<lparr>d_value := v, d_created_at := now_stmt ck\<rparr> else r) (client_details db)"
    by (simp add: client_details_save_detail)
  show ?thesis
    unfolding cd by (rule map_update_all) simp
next
  case False
  then have cd: "client_details (save_detail ck c k v db) = client_details db @
      [\<lparr>d_client_id = c, d_key = k, d_value = v, d_created_at = default_stmt ck\<rparr>]"
    by (simp add: client_details_save_detail)
  from False have "\<forall>r \<in> set (client_details db). \<not> (d_client_id r = c \<and> d_key r = k)"
    by (simp add: list_ex_iff)
  then show ?thesis
    unfolding cd by auto
qed

lemma save_detail_row_exists:
  "\<exists>r \<in> set (client_details (save_detail ck c k v db)). d_client_id r = c \<and> d_key r = k"
proof (cases "list_ex (\<lambda>r. d_client_id r = c \<and> d_key r = k) (client_details db)")
  case True
  then obtain r0 where r0: "r0 \<in> set (client_details db)" "d_client_id r0 = c" "d_key r0 = k"
    unfolding list_ex_iff by blast
  let ?f = "\<lambda>r. if d_client_id r = c \<and> d_key r = k
                 then r\<lparr>d_value := v, d_created_at := now_stmt ck\<rparr> else r"
  from True have cd: "client_details (save_detail ck c k v db) = map ?f (client_details db)"
    by (simp add: client_details_save_detail)
  from r0(1) have "?f r0 \<in> set (map ?f (client_details db))"
    by (simp only: set_map) (rule imageI)
  moreover from r0 have "d_client_id (?f r0) = c \<and> d_key (?f r0) = k" by simp
  ultimately show ?thesis unfolding cd by blast
next
  case False
  then show ?thesis
    by (simp add: client_details_save_detail)
qed

lemma save_detail_other:
  assumes "(c', k') \<noteq> (c, k)"
  shows "filter (\<lambda>r. d_client_id r = c \<and> d_key r = k) (client_details (save_detail ck c' k' v' db)) =
         filter (\<lambda>r. d_client_id r = c \<and> d_key r = k) (client_details db)"
proof (cases "list_ex (\<lambda>r. d_client_id r = c' \<and> d_key r = k') (client_details db)")
  case True
  have "filter (\<lambda>r. d_client_id r = c \<and> d_key r = k)
          (map (\<lambda>r. if d_client_id r = c' \<and> d_key r = k'
                     then r\<lparr>d_value := v', d_created_at := now_stmt ck\<rparr> else r)
             (client_details db)) =
        filter (\<lambda>r. d_client_id r = c \<and> d_key r = k) (client_details db)"
  proof (rule filter_map_update_other)
    fix r :: detail_row assume "d_client_id r = c' \<and> d_key r = k'"
    with assms show "\<not> (d_client_id r = c \<and> d_key r = k)" by auto
  next
    fix r :: detail_row assume "d_client_id r = c' \<and> d_key r = k'"
    with assms show "\<not> (d_client_id (r\<lparr>d_value := v', d_created_at := now_stmt ck\<rparr>) = c \<and>
        d_key (r\<lparr>d_value := v', d_created_at := now_stmt ck\<rparr>) = k)" by auto
  qed
  with True show ?thesis
    by (simp add: client_details_save_detail)
next
  case False
  with assms show ?thesis
    by (auto simp: client_details_save_detail)
qed

lemma save_details_other:
  assumes "\<forall>call \<in> set calls. (fst (snd call), fst (snd (snd call))) \<noteq> (c, k)"
  shows "filter (\<lambda>r. d_client_id r = c \<and> d_key r = k) (client_details (save_details calls db)) =
         filter (\<lambda>r. d_client_id r = c \<and> d_key r = k) (client_details db)"
  using assms
proof (induction calls arbitrary: db)
  case Nil
  then show ?case by simp
next
  case (Cons call calls)
  obtain ck' c' k' v' where call: "call = (ck', c', k', v')" by (cases call)
  with Cons.prems have ne: "(c', k') \<noteq> (c, k)" by simp
  from Cons.prems have rest: "\<forall>call \<in> set calls. (fst (snd call), fst (snd (snd call))) \<noteq> (c, k)"
    by simp
  have "filter (\<lambda>r. d_client_id r = c \<and> d_key r = k)
          (client_details (save_details (call # calls) db)) =
        filter (\<lambda>r. d_client_id r = c \<and> d_key r = k)
          (client_details (save_details calls (save_detail ck' c' k' v' db)))"
    by (simp add: call)
  also have "\<dots> = filter (\<lambda>r. d_client_id r = c \<and> d_key r = k)
          (client_details (save_detail ck' c' k' v' db))"
    by (rule Cons.IH[OF rest])
  also have "\<dots> = filter (\<lambda>r. d_client_id r = c \<and> d_key r = k) (client_details db)"
    by (rule save_detail_other[OF ne])
  finally show ?case .
qed

lemma save_details_append: "save_details (xs @ ys) db = save_details ys (save_details xs db)"
proof (induction xs arbitrary: db)
  case Nil
  show ?case by simp
next
  case (Cons call xs)
  obtain ck' c' k' v' where call: "call = (ck', c', k', v')" by (cases call)
  show ?case by (simp add: call Cons.IH)
qed

text \<open>
  Claim C3 (amended).  After any sequence of \<^verbatim>\<open>save_detail\<close> calls, \<^verbatim>\<open>get_detail\<close> returns
  the value of the most recent call for that client and key.  The call overwrites the
  value of the stored rows for the key in place: every stored row for the client and key
  holds the most recent value, so no earlier value remains in storage.
\<close>

theorem get_detail_latest_overwrites:
  assumes later: "\<forall>(ck', c', k', v') \<in> set calls2. (c', k') \<noteq> (c, k)"
  shows "get_detail c k (save_details (calls1 @ [(ck, c, k, v)] @ calls2) db) = Some v \<and>
         (\<forall>r \<in> set (client_details (save_details (calls1 @ [(ck, c, k, v)] @ calls2) db)).
             d_client_id r = c \<and> d_key r = k \<longrightarrow> d_value r = v)"
proof -
  let ?P = "\<lambda>r. d_client_id r = c \<and> d_key r = k"
  let ?db1 = "save_detail ck c k v (save_details calls1 db)"
  define db' where "db' = save_details (calls1 @ [(ck, c, k, v)] @ calls2) db"
  have db': "db' = save_details calls2 ?db1"
    by (simp add: db'_def save_details_append)
  have eq: "filter ?P (client_details db') = filter ?P (client_details ?db1)"
  proof -
    from later have "\<forall>call \<in> set calls2. (fst (snd call), fst (snd (snd call))) \<noteq> (c, k)"
      by (simp add: case_prod_beta)
    then show ?thesis unfolding db' by (rule save_details_other)
  qed
  have all1: "\<forall>r \<in> set (filter ?P (client_details ?db1)). d_value r = v"
    using save_detail_rows[of ck c k v "save_details calls1 db"] by simp
  have ex1: "filter ?P (client_details ?db1) \<noteq> []"
    using save_detail_row_exists[of ck c k v "save_details calls1 db"]
    by (simp add: filter_empty_conv)
  from all1 eq have all: "\<forall>r \<in> set (client_details db'). ?P r \<longrightarrow> d_value r = v"
    by (metis (mono_tags, lifting) mem_Collect_eq set_filter)
  from ex1 eq have ex: "\<exists>r \<in> set (client_details db'). ?P r"
    by (metis (mono_tags, lifting) filter_empty_conv)
  from get_detail_uniform[OF ex all] all show ?thesis unfolding db'_def by blast
qed

theorem get_detail_latest_overwrites_witness:
  "(''c1'', ''city'') \<noteq> (''c1'', ''budget'') \<and>
   get_detail ''c1'' ''budget''
     (save_details ([(tick 1, ''c1'', ''budget'', ''$300'')] @ [(tick 2, ''c1'', ''budget'', ''$500'')] @
        [(tick 3, ''c1'', ''city'', ''Lima'')]) empty_database) = Some ''$500''"
  using get_detail_latest_overwrites
    [of "[(tick 3, ''c1'', ''city'', ''Lima'')]" "''c1''" "''budget''"
        "[(tick 1, ''c1'', ''budget'', ''$300'')]" "tick 2" "''$500''" empty_database]
  by simp

text \<open>
  Claim C3 as stated fails: after \<^verbatim>\<open>save_detail("c1", "budget", "$300")\<close> and then
  \<^verbatim>\<open>save_detail("c1", "budget", "$500")\<close> on an empty store, the table holds the single row
  with \<open>$500\<close>; the value \<open>$300\<close> is not retained.
\<close>

theorem save_detail_prior_value_not_retained:
  "client_details
     (save_details [(tick 1, ''c1'', ''budget'', ''$300''), (tick 2, ''c1'', ''budget'', ''$500'')]
        empty_database) =
     [\<lparr>d_client_id = ''c1'', d_key = ''budget'', d_value = ''$500'', d_created_at = 2\<rparr>] \<and>
   \<not> (\<exists>r \<in> set (client_details
     (save_details [(tick 1, ''c1'', ''budget'', ''$300''), (tick 2, ''c1'', ''budget'', ''$500'')]
        empty_database)). d_value r = ''$300'')"
  by (simp add: client_details_save_detail empty_database_def tick_def)

subsection \<open>History\<close>










subsection \<open>Clients\<close>









lemma clients_save_client:
  "clients (save_client ck cid name lang db) =
     (if list_ex (\<lambda>r. c_client_id r = cid) (clients db)
      then map (\<lambda>r. if c_client_id r = cid
                      then r\<lparr>c_name := coalesce name (c_name r),
                             c_language := coalesce lang (c_language r),
                             c_last_contact := now_update ck\<rparr>
                      else r) (clients db)
      else clients db @
             [\<lparr>c_client_id = cid, c_name = name, c_language = lang,
               c_created_at = default_client ck, c_last_contact = now_insert ck,
               c_lead_score = None, c_notes = None\<rparr>])"
  by (simp add: save_client_def)

lemma save_client_other_tables:
  "client_details (save_client ck cid name lang db) = client_details db \<and>
   conversations (save_client ck cid name lang db) = conversations db \<and>
   orders (save_client ck cid name lang db) = orders db"
  by (simp add: save_client_def)











subsection \<open>Context summary\<close>

lemma append_text_field:
  "(case v of None \<Rightarrow> ps | Some n \<Rightarrow> if n \<noteq> [] then ps @ [lab @ n] else ps) =
     ps @ spec_text_field lab v"
  by (cases v) (simp_all add: spec_text_field_def)

lemma append_details:
  "(if details \<noteq> [] then ps @ map g details else ps) = ps @ map g details"
  by simp

lemma append_orders:
  "(case ords of [] \<Rightarrow> ps | last_order # x \<Rightarrow> ps @ [a, f last_order]) =
     ps @ (if ords = [] then [] else [a, f (hd ords)])"
  by (cases ords) simp_all

lemma append_history:
  "(if history \<noteq> [] then ps @ [a] else ps) = ps @ (if history = [] then [] else [a])"
  by simp

lemma summary_parts:
  "generate_context_summary client details history ords =
     (let parts =
        (case client of
           None \<Rightarrow> []
         | Some c \<Rightarrow> (([] @ spec_text_field ''Client: '' (c_name c)) @
              spec_text_field ''Language: '' (c_language c)) @
              spec_text_field ''Lead score: '' (c_lead_score c)) @
        map (\<lambda>(key, val). key @ '': '' @ val) details @
        (if ords = [] then []
         else [''Orders: '' @ str_of_nat (length ords) @ '' total'',
               ''Last order: '' @ p_product (hd ords) @ '' ('' @ p_status (hd ords) @ '')'']) @
        (if history = [] then []
         else [''Conversation history: '' @ str_of_nat (length history) @ '' messages''])
      in if parts \<noteq> [] then join '' | '' parts else ''New client, no history'')"
proof -
  have "generate_context_summary client details history ords =
     (let parts =
        (((case client of
           None \<Rightarrow> []
         | Some c \<Rightarrow> (([] @ spec_text_field ''Client: '' (c_name c)) @
              spec_text_field ''Language: '' (c_language c)) @
              spec_text_field ''Lead score: '' (c_lead_score c)) @
        map (\<lambda>(key, val). key @ '': '' @ val) details) @
        (if ords = [] then []
         else [''Orders: '' @ str_of_nat (length ords) @ '' total'',
               ''Last order: '' @ p_product (hd ords) @ '' ('' @ p_status (hd ords) @ '')''])) @
        (if history = [] then []
         else [''Conversation history: '' @ str_of_nat (length history) @ '' messages''])
      in if parts \<noteq> [] then join '' | '' parts else ''New client, no history'')"
    unfolding generate_context_summary_def Let_def
    unfolding append_text_field
    unfolding append_details append_orders
    unfolding append_history
    by (rule refl)
  then show ?thesis by (simp only: append_assoc)
qed

lemma spec_fields_parts:
  "spec_summary_fields client details history ords =
        (case client of
           None \<Rightarrow> []
         | Some c \<Rightarrow> (([] @ spec_text_field ''Client: '' (c_name c)) @
              spec_text_field ''Language: '' (c_language c)) @
              spec_text_field ''Lead score: '' (c_lead_score c)) @
        map (\<lambda>(key, val). key @ '': '' @ val) details @
        (if ords = [] then []
         else [''Orders: '' @ str_of_nat (length ords) @ '' total'',
               ''Last order: '' @ p_product (hd ords) @ '' ('' @ p_status (hd ords) @ '')'']) @
        (if history = [] then []
         else [''Conversation history: '' @ str_of_nat (length history) @ '' messages''])"
  unfolding spec_summary_fields_def by (cases client) simp_all

lemma summary_refines_spec:
  "generate_context_summary client details history ords =
     (if spec_summary_fields client details history ords = [] then ''New client, no history''
      else join '' | '' (spec_summary_fields client details history ords))"
  unfolding summary_parts spec_fields_parts[symmetric] Let_def by simp

lemma prefix_join_head: "prefix b (join sep (b # rest))"
  by (cases rest) simp_all

lemma get_context_unknown_client:
  assumes "get_client cid db = None"
    and "filter (\<lambda>r. d_client_id r = cid) (client_details db) = []"
    and "filter (\<lambda>r. m_client_id r = cid) (conversations db) = []"
    and "filter (\<lambda>r. o_client_id r = cid) (orders db) = []"
  shows "ctx_summary (get_context cid db) = ''New client, no history''"
  using assms
  by (simp add: get_context_def Let_def get_all_details_def get_history_def get_orders_def
      order_by_desc_def sql_limit_def summary_refines_spec spec_summary_fields_def)

lemma summary_ana_prefix:
  assumes "c_name c = Some ''Ana''" and "c_language c = Some ''es''"
  shows "prefix ''Client: Ana | Language: es''
           (generate_context_summary (Some c) details history ords)"
proof -
  obtain rest where f: "spec_summary_fields (Some c) details history ords =
      ''Client: Ana'' # ''Language: es'' # rest"
    using assms by (simp add: spec_summary_fields_def spec_text_field_def)
  have "prefix ''Language: es'' (join '' | '' (''Language: es'' # rest))"
    by (rule prefix_join_head)
  then have "prefix (''Client: Ana'' @ '' | '' @ ''Language: es'')
      (''Client: Ana'' @ '' | '' @ join '' | '' (''Language: es'' # rest))"
    by (simp only: same_prefix_prefix)
  then show ?thesis
    unfolding summary_refines_spec f by simp
qed

text \<open>
  Claim C7.  The summary is the separator-joined list of the fields that are present, in
  the order name, language, lead score, each detail, order count with the last order,
  history message count, and the fixed marker when no field is present.  For a client
  the store does not know (no row, no details, no messages, no orders) the snapshot's
  summary is the marker, and for a client named Ana with language es the summary begins
  with \<open>Client: Ana | Language: es\<close>.
\<close>

theorem context_summary_fields_in_order:
  "generate_context_summary client details history ords =
     (if spec_summary_fields client details history ords = [] then ''New client, no history''
      else join '' | '' (spec_summary_fields client details history ords)) \<and>
   generate_context_summary None [] [] [] = ''New client, no history'' \<and>
   (get_client cid db = None \<and>
    filter (\<lambda>r. d_client_id r = cid) (client_details db) = [] \<and>
    filter (\<lambda>r. m_client_id r = cid) (conversations db) = [] \<and>
    filter (\<lambda>r. o_client_id r = cid) (orders db) = [] \<longrightarrow>
      ctx_summary (get_context cid db) = ''New client, no history'') \<and>
   (c_name c = Some ''Ana'' \<and> c_language c = Some ''es'' \<longrightarrow>
      prefix ''Client: Ana | Language: es''
        (generate_context_summary (Some c) details' history' ords'))"
proof (intro conjI impI)
  show "generate_context_summary client details history ords =
     (if spec_summary_fields client details history ords = [] then ''New client, no history''
      else join '' | '' (spec_summary_fields client details history ords))"
    by (rule summary_refines_spec)
  show "generate_context_summary None [] [] [] = ''New client, no history''"
    by (simp add: summary_refines_spec spec_summary_fields_def)
next
  assume "get_client cid db = None \<and>
    filter (\<lambda>r. d_client_id r = cid) (client_details db) = [] \<and>
    filter (\<lambda>r. m_client_id r = cid) (conversations db) = [] \<and>
    filter (\<lambda>r. o_client_id r = cid) (orders db) = []"
  then show "ctx_summary (get_context cid db) = ''New client, no history''"
    by (intro get_context_unknown_client) simp_all
next
  assume "c_name c = Some ''Ana'' \<and> c_language c = Some ''es''"
  then show "prefix ''Client: Ana | Language: es''
        (generate_context_summary (Some c) details' history' ords')"
    by (intro summary_ana_prefix) simp_all
qed

theorem context_summary_fields_in_order_witness:
  "ctx_summary (get_context ''new'' empty_database) = ''New client, no history'' \<and>
   ctx_summary (get_context ''c1''
      (save_detail (tick 2) ''c1'' ''budget'' ''$300''
        (save_client (tick 1) ''c1'' (Some ''Ana'') (Some ''es'') empty_database))) =
     ''Client: Ana | Language: es | budget: $300''"
  using context_summary_fields_in_order
    [of None "[]" "[]" "[]" "''new''" empty_database
        "\<lparr>c_client_id = ''c1'', c_name = Some ''Ana'', c_language = Some ''es'',
          c_created_at = 1, c_last_contact = 2, c_lead_score = None, c_notes = None\<rparr>" "[]" "[]" "[]"]
  by (simp add: get_context_def Let_def get_client_def get_all_details_def get_history_def
      get_orders_def order_by_desc_def sql_limit_def client_details_save_detail
      save_client_other_tables clients_save_client save_detail_def
      empty_database_def tick_def coalesce_def generate_context_summary_def)

end
